theory Spec2Isabelle
  imports Main
begin

section \<open>Attributes of the two dialects\<close>

text \<open>
  The eight enum attribute kinds that \<^verbatim>\<open>convertAttr\<close> hands to the macro
  \<^verbatim>\<open>RETURN_CONVERTED_ENUM_ATTR(Name)\<close>. The macro pastes \<^verbatim>\<open>Name\<close> into
  \<^verbatim>\<open>stablehlo::stringify##Name\<close>, \<^verbatim>\<open>mhlo::symbolize##Name\<close> and
  \<^verbatim>\<open>mhlo::Name##Attr\<close>; here \<^verbatim>\<open>Name\<close> is a value of this type.
\<close>

datatype EnumName =
    ComparisonDirection
  | ComparisonType
  | CustomCallApiVersion
  | FftType
  | Precision
  | RngAlgorithm
  | RngDistribution
  | Transpose

text \<open>
  An \<^verbatim>\<open>mlir::Attribute\<close>, as far as \<^verbatim>\<open>convertAttr\<close> tells attributes apart:
  the thirteen StableHLO kinds it casts to, their thirteen MHLO counterparts, the builtin
  \<^verbatim>\<open>ArrayAttr\<close>, the builtin \<^verbatim>\<open>DictionaryAttr\<close> (an attribute other than an
  \<^verbatim>\<open>ArrayAttr\<close> that holds attributes, here under names), and every other attribute
  kind, kept opaque with the namespace of its dialect and its contents. A 64-bit field is an \<open>int\<close>, an \<^verbatim>\<open>ArrayRef<int64_t>\<close> an
  \<open>int list\<close>; the value of an enum attribute is the number of its enum case.
\<close>

datatype Attribute =
    stablehlo_ChannelHandleAttr int int
  | stablehlo_ComparisonDirectionAttr nat
  | stablehlo_ComparisonTypeAttr nat
  | stablehlo_ConvDimensionNumbersAttr int int "int list" int int "int list" int int "int list"
  | stablehlo_CustomCallApiVersionAttr nat
  | stablehlo_DotDimensionNumbersAttr "int list" "int list" "int list" "int list"
  | stablehlo_FftTypeAttr nat
  | stablehlo_GatherDimensionNumbersAttr "int list" "int list" "int list" int
  | stablehlo_PrecisionAttr nat
  | stablehlo_RngAlgorithmAttr nat
  | stablehlo_RngDistributionAttr nat
  | stablehlo_ScatterDimensionNumbersAttr "int list" "int list" "int list" int
  | stablehlo_TransposeAttr nat
  | mhlo_ChannelHandleAttr int int
  | mhlo_ComparisonDirectionAttr nat
  | mhlo_ComparisonTypeAttr nat
  | mhlo_ConvDimensionNumbersAttr int int "int list" int int "int list" int int "int list"
  | mhlo_CustomCallApiVersionAttr nat
  | mhlo_DotDimensionNumbersAttr "int list" "int list" "int list" "int list"
  | mhlo_FftTypeAttr nat
  | mhlo_GatherDimensionNumbersAttr "int list" "int list" "int list" int
  | mhlo_PrecisionAttr nat
  | mhlo_RngAlgorithmAttr nat
  | mhlo_RngDistributionAttr nat
  | mhlo_ScatterDimensionNumbersAttr "int list" "int list" "int list" int
  | mhlo_TransposeAttr nat
  | ArrayAttr "Attribute list"
  | DictionaryAttr "(string \<times> Attribute) list"
  | OtherAttr string string

text \<open>\<^verbatim>\<open>attr.getDialect().getNamespace()\<close>.\<close>

fun getNamespace :: "Attribute \<Rightarrow> string" where
  "getNamespace (stablehlo_ChannelHandleAttr h t) = ''stablehlo''"
| "getNamespace (stablehlo_ComparisonDirectionAttr v) = ''stablehlo''"
| "getNamespace (stablehlo_ComparisonTypeAttr v) = ''stablehlo''"
| "getNamespace (stablehlo_ConvDimensionNumbersAttr ib if' is ki ko ks ob of' os) = ''stablehlo''"
| "getNamespace (stablehlo_CustomCallApiVersionAttr v) = ''stablehlo''"
| "getNamespace (stablehlo_DotDimensionNumbersAttr lb rb lc rc) = ''stablehlo''"
| "getNamespace (stablehlo_FftTypeAttr v) = ''stablehlo''"
| "getNamespace (stablehlo_GatherDimensionNumbersAttr od cs sm iv) = ''stablehlo''"
| "getNamespace (stablehlo_PrecisionAttr v) = ''stablehlo''"
| "getNamespace (stablehlo_RngAlgorithmAttr v) = ''stablehlo''"
| "getNamespace (stablehlo_RngDistributionAttr v) = ''stablehlo''"
| "getNamespace (stablehlo_ScatterDimensionNumbersAttr uw iw sd iv) = ''stablehlo''"
| "getNamespace (stablehlo_TransposeAttr v) = ''stablehlo''"
| "getNamespace (ArrayAttr xs) = ''builtin''"
| "getNamespace (DictionaryAttr nas) = ''builtin''"
| "getNamespace (OtherAttr ns contents) = ns"
| "getNamespace _ = ''mhlo''"

text \<open>\<^verbatim>\<open>stablehlo::Name##Attr::get\<close> and \<^verbatim>\<open>mhlo::Name##Attr::get\<close> for an enum kind.\<close>

fun stablehlo_EnumAttr_get :: "EnumName \<Rightarrow> nat \<Rightarrow> Attribute" where
  "stablehlo_EnumAttr_get ComparisonDirection v = stablehlo_ComparisonDirectionAttr v"
| "stablehlo_EnumAttr_get ComparisonType v = stablehlo_ComparisonTypeAttr v"
| "stablehlo_EnumAttr_get CustomCallApiVersion v = stablehlo_CustomCallApiVersionAttr v"
| "stablehlo_EnumAttr_get FftType v = stablehlo_FftTypeAttr v"
| "stablehlo_EnumAttr_get Precision v = stablehlo_PrecisionAttr v"
| "stablehlo_EnumAttr_get RngAlgorithm v = stablehlo_RngAlgorithmAttr v"
| "stablehlo_EnumAttr_get RngDistribution v = stablehlo_RngDistributionAttr v"
| "stablehlo_EnumAttr_get Transpose v = stablehlo_TransposeAttr v"

fun mhlo_EnumAttr_get :: "EnumName \<Rightarrow> nat \<Rightarrow> Attribute" where
  "mhlo_EnumAttr_get ComparisonDirection v = mhlo_ComparisonDirectionAttr v"
| "mhlo_EnumAttr_get ComparisonType v = mhlo_ComparisonTypeAttr v"
| "mhlo_EnumAttr_get CustomCallApiVersion v = mhlo_CustomCallApiVersionAttr v"
| "mhlo_EnumAttr_get FftType v = mhlo_FftTypeAttr v"
| "mhlo_EnumAttr_get Precision v = mhlo_PrecisionAttr v"
| "mhlo_EnumAttr_get RngAlgorithm v = mhlo_RngAlgorithmAttr v"
| "mhlo_EnumAttr_get RngDistribution v = mhlo_RngDistributionAttr v"
| "mhlo_EnumAttr_get Transpose v = mhlo_TransposeAttr v"

subsection \<open>The enum symbols of a dialect\<close>

text \<open>
  Modelled from the spec: the generated functions \<^verbatim>\<open>stablehlo::stringify##Name\<close> and
  \<^verbatim>\<open>mhlo::symbolize##Name\<close> (and \<^verbatim>\<open>mhlo::stringify##Name\<close>), which the enum
  declarations of the two dialects produce, are not among the sources. The spec speaks of
  the symbols of a dialect, of stringifying a symbol and of looking a string up among the
  target symbols of identical name. An enum of a dialect is the list of its cases, each a
  symbol name with the number of the case; the two dialects' enums are parameters.
\<close>

type_synonym EnumCases = "(string \<times> nat) list"

record Dialects =
  stablehlo_cases :: "EnumName \<Rightarrow> EnumCases"
  mhlo_cases :: "EnumName \<Rightarrow> EnumCases"

text \<open>
  Modelled from the spec: \<^verbatim>\<open>stringify##Name\<close>, the name of the first case with the
  given number, the empty string where the enum has no such case.
\<close>

fun stringifyEnum :: "EnumCases \<Rightarrow> nat \<Rightarrow> string" where
  "stringifyEnum [] v = ''''"
| "stringifyEnum ((s, x) # cases) v = (if x = v then s else stringifyEnum cases v)"

text \<open>
  Modelled from the spec: \<^verbatim>\<open>symbolize##Name\<close>, the number of the first case of the
  given name, no value where the enum has no case of that name.
\<close>

fun symbolizeEnum :: "EnumCases \<Rightarrow> string \<Rightarrow> nat option" where
  "symbolizeEnum [] str = None"
| "symbolizeEnum ((s, x) # cases) str = (if s = str then Some x else symbolizeEnum cases str)"

section \<open>convertAttr\<close>

text \<open>
  The macro \<^verbatim>\<open>RETURN_CONVERTED_ENUM_ATTR(Name)\<close>, applied to \<^verbatim>\<open>attr.getValue()\<close>.
  A null \<^verbatim>\<open>Attribute\<close> (\<^verbatim>\<open>return {}\<close>) is \<open>None\<close>.
\<close>

definition RETURN_CONVERTED_ENUM_ATTR :: "Dialects \<Rightarrow> EnumName \<Rightarrow> nat \<Rightarrow> Attribute option" where
  "RETURN_CONVERTED_ENUM_ATTR D Name attr_getValue =
     (let stablehloValue = stringifyEnum (stablehlo_cases D Name) attr_getValue;
          hloValue = symbolizeEnum (mhlo_cases D Name) stablehloValue
      in case hloValue of
           None \<Rightarrow> None
         | Some hloValue_value \<Rightarrow> Some (mhlo_EnumAttr_get Name hloValue_value))"

text \<open>
  \<^verbatim>\<open>convertAttr\<close>: the chain of \<^verbatim>\<open>dyn_cast\<close>s in the order of the source, then the
  check of the namespace, then the \<^verbatim>\<open>ArrayAttr\<close> case, then the unchanged attribute.
  \<open>convertAttr_loop\<close> is the \<^verbatim>\<open>for\<close> loop over the elements of an \<^verbatim>\<open>ArrayAttr\<close>; its
  last argument is \<^verbatim>\<open>hloAttrs\<close>, to which \<^verbatim>\<open>push_back\<close> appends.
\<close>

fun convertAttr :: "Dialects \<Rightarrow> Attribute \<Rightarrow> Attribute option"
  and convertAttr_loop :: "Dialects \<Rightarrow> Attribute list \<Rightarrow> Attribute list \<Rightarrow> Attribute list option"
where
  "convertAttr D (stablehlo_ChannelHandleAttr handle type) =
     Some (mhlo_ChannelHandleAttr handle type)"
| "convertAttr D (stablehlo_ComparisonDirectionAttr v) =
     RETURN_CONVERTED_ENUM_ATTR D ComparisonDirection v"
| "convertAttr D (stablehlo_ComparisonTypeAttr v) =
     RETURN_CONVERTED_ENUM_ATTR D ComparisonType v"
| "convertAttr D (stablehlo_ConvDimensionNumbersAttr inputBatchDimension inputFeatureDimension
       inputSpatialDimensions kernelInputFeatureDimension kernelOutputFeatureDimension
       kernelSpatialDimensions outputBatchDimension outputFeatureDimension
       outputSpatialDimensions) =
     Some (mhlo_ConvDimensionNumbersAttr inputBatchDimension inputFeatureDimension
       inputSpatialDimensions kernelInputFeatureDimension kernelOutputFeatureDimension
       kernelSpatialDimensions outputBatchDimension outputFeatureDimension
       outputSpatialDimensions)"
| "convertAttr D (stablehlo_CustomCallApiVersionAttr v) =
     RETURN_CONVERTED_ENUM_ATTR D CustomCallApiVersion v"
| "convertAttr D (stablehlo_DotDimensionNumbersAttr lhsBatchingDimensions rhsBatchingDimensions
       lhsContractingDimensions rhsContractingDimensions) =
     Some (mhlo_DotDimensionNumbersAttr lhsBatchingDimensions rhsBatchingDimensions
       lhsContractingDimensions rhsContractingDimensions)"
| "convertAttr D (stablehlo_FftTypeAttr v) =
     RETURN_CONVERTED_ENUM_ATTR D FftType v"
| "convertAttr D (stablehlo_GatherDimensionNumbersAttr offsetDims collapsedSliceDims
       startIndexMap indexVectorDim) =
     Some (mhlo_GatherDimensionNumbersAttr offsetDims collapsedSliceDims
       startIndexMap indexVectorDim)"
| "convertAttr D (stablehlo_PrecisionAttr v) =
     RETURN_CONVERTED_ENUM_ATTR D Precision v"
| "convertAttr D (stablehlo_RngAlgorithmAttr v) =
     RETURN_CONVERTED_ENUM_ATTR D RngAlgorithm v"
| "convertAttr D (stablehlo_RngDistributionAttr v) =
     RETURN_CONVERTED_ENUM_ATTR D RngDistribution v"
| "convertAttr D (stablehlo_ScatterDimensionNumbersAttr updateWindowDims insertedWindowDims
       scatterDimsToOperandDims indexVectorDim) =
     Some (mhlo_ScatterDimensionNumbersAttr updateWindowDims insertedWindowDims
       scatterDimsToOperandDims indexVectorDim)"
| "convertAttr D (stablehlo_TransposeAttr v) =
     RETURN_CONVERTED_ENUM_ATTR D Transpose v"
| "convertAttr D stablehloAttr =
     (if getNamespace stablehloAttr = ''stablehlo'' then None
      else case stablehloAttr of
             ArrayAttr stablehloAttrs \<Rightarrow>
               (case convertAttr_loop D stablehloAttrs [] of
                  None \<Rightarrow> None
                | Some hloAttrs \<Rightarrow> Some (ArrayAttr hloAttrs))
           | _ \<Rightarrow> Some stablehloAttr)"
| "convertAttr_loop D [] hloAttrs = Some hloAttrs"
| "convertAttr_loop D (stablehloAttr # rest) hloAttrs =
     (case convertAttr D stablehloAttr of
        None \<Rightarrow> None
      | Some hloAttr \<Rightarrow> convertAttr_loop D rest (hloAttrs @ [hloAttr]))"


text \<open>
  The attribute kinds that one of the \<^verbatim>\<open>dyn_cast\<close>s of \<^verbatim>\<open>convertAttr\<close> accepts.
\<close>

fun isHandledKind :: "Attribute \<Rightarrow> bool" where
  "isHandledKind (stablehlo_ChannelHandleAttr h t) = True"
| "isHandledKind (stablehlo_ComparisonDirectionAttr v) = True"
| "isHandledKind (stablehlo_ComparisonTypeAttr v) = True"
| "isHandledKind (stablehlo_ConvDimensionNumbersAttr ib if' is ki ko ks ob of' os) = True"
| "isHandledKind (stablehlo_CustomCallApiVersionAttr v) = True"
| "isHandledKind (stablehlo_DotDimensionNumbersAttr lb rb lc rc) = True"
| "isHandledKind (stablehlo_FftTypeAttr v) = True"
| "isHandledKind (stablehlo_GatherDimensionNumbersAttr od cs sm iv) = True"
| "isHandledKind (stablehlo_PrecisionAttr v) = True"
| "isHandledKind (stablehlo_RngAlgorithmAttr v) = True"
| "isHandledKind (stablehlo_RngDistributionAttr v) = True"
| "isHandledKind (stablehlo_ScatterDimensionNumbersAttr uw iw sd iv) = True"
| "isHandledKind (stablehlo_TransposeAttr v) = True"
| "isHandledKind _ = False"

text \<open>Whether \<^verbatim>\<open>attr.dyn_cast<ArrayAttr>()\<close> is non-null.\<close>

fun isa_ArrayAttr :: "Attribute \<Rightarrow> bool" where
  "isa_ArrayAttr (ArrayAttr xs) = True"
| "isa_ArrayAttr _ = False"

text \<open>
  No attribute of the StableHLO namespace occurs in an attribute, at any depth of nesting
  in the attributes that hold attributes, \<^verbatim>\<open>ArrayAttr\<close> and \<^verbatim>\<open>DictionaryAttr\<close>.
\<close>

fun noStablehloAttr :: "Attribute \<Rightarrow> bool" where
  "noStablehloAttr (ArrayAttr xs) = list_all noStablehloAttr xs"
| "noStablehloAttr (DictionaryAttr nas) = list_all (\<lambda>na. noStablehloAttr (snd na)) nas"
| "noStablehloAttr a = (getNamespace a \<noteq> ''stablehlo'')"

text \<open>
  No attribute of the StableHLO namespace occurs in an attribute at any depth of
  \<^verbatim>\<open>ArrayAttr\<close> nesting alone, the nesting that \<^verbatim>\<open>convertAttr\<close> follows.
\<close>

fun noStablehloInArrays :: "Attribute \<Rightarrow> bool" where
  "noStablehloInArrays (ArrayAttr xs) = list_all noStablehloInArrays xs"
| "noStablehloInArrays a = (getNamespace a \<noteq> ''stablehlo'')"

section \<open>Operations and the conversion pattern\<close>

text \<open>
  The operation classes. \<^verbatim>\<open>matchAndRewrite\<close> tells \<^verbatim>\<open>stablehlo::CaseOp\<close> from all
  others; the others are kept by name.
\<close>

datatype StablehloOpTy = stablehlo_CaseOp | stablehlo_Op string

datatype MhloOpTy = mhlo_CaseOp | mhlo_Op string

datatype OperationName = stablehlo StablehloOpTy | mhlo MhloOpTy

text \<open>
  An operation instance: its name, result types, operands, named attributes and regions,
  each in order. Types (\<open>'t\<close>), values (\<open>'v\<close>) and blocks (\<open>'b\<close>) are opaque to the
  pattern; a region is the list of its blocks.
\<close>

record ('t, 'v, 'b) Operation =
  opName :: OperationName
  resultTypes :: "'t list"
  operands :: "'v list"
  attrs :: "(string \<times> Attribute) list"
  regions :: "'b list list"

text \<open>
  What the pattern takes from the declarations of the two dialects, none of them among
  the sources and all of them parameters here: \<^verbatim>\<open>StablehloToHloOp<StablehloOpTy>\<close>, the
  MHLO class of a StableHLO class (\<^verbatim>\<open>map_stablehlo_to_hlo_op.h\<close>); the number of regions
  that the generic builder of an MHLO class without variadic regions adds; and the list of
  StableHLO classes that \<^verbatim>\<open>GET_OP_LIST\<close> expands to (\<^verbatim>\<open>StablehloOps.cpp.inc\<close>).
\<close>

record Schema =
  StablehloToHloOp :: "StablehloOpTy \<Rightarrow> MhloOpTy"
  numRegions :: "MhloOpTy \<Rightarrow> nat"
  GET_OP_LIST :: "StablehloOpTy list"

text \<open>
  Modelled from the spec: the generated builders of the MHLO operations are not among the
  sources. The replacement instance is constructed from the translated result types,
  operands and attribute pairs; its regions are empty, as many as the last argument says
  (the branch count for the variadic-region kind, the declared number otherwise).
\<close>

definition build ::
  "OperationName \<Rightarrow> 't list \<Rightarrow> 'v list \<Rightarrow> (string \<times> Attribute) list \<Rightarrow> nat
    \<Rightarrow> ('t, 'v, 'b) Operation" where
  "build n hloTypes hloOperands hloAttrs regionCount =
     \<lparr>opName = n, resultTypes = hloTypes, operands = hloOperands, attrs = hloAttrs,
      regions = replicate regionCount []\<rparr>"

datatype LogicalResult = success | failure

text \<open>
  The part of the IR that a call of \<^verbatim>\<open>matchAndRewrite\<close> reads and writes through
  \<^verbatim>\<open>rewriter\<close>: the matched instance \<^verbatim>\<open>stablehloOp\<close>, and the instances that
  \<^verbatim>\<open>replaceOpWithNewOp\<close> has put in its place, in order of creation.
\<close>

record ('t, 'v, 'b) Rewriter =
  matched :: "('t, 'v, 'b) Operation"
  created :: "('t, 'v, 'b) Operation list"

text \<open>
  \<^verbatim>\<open>rewriter.inlineRegionBefore(region, parent, parent.end())\<close>: the blocks of
  \<^verbatim>\<open>region\<close> move to the end of \<^verbatim>\<open>parent\<close>. The result is the pair of \<^verbatim>\<open>region\<close>
  and \<^verbatim>\<open>parent\<close> afterwards.
\<close>

definition inlineRegionBefore :: "'b list \<Rightarrow> 'b list \<Rightarrow> 'b list \<times> 'b list" where
  "inlineRegionBefore region parent = ([], parent @ region)"

text \<open>
  The loop over \<^verbatim>\<open>llvm::zip(stablehloOp->getRegions(), hloOp->getRegions())\<close>, which
  ends with the shorter of the two ranges. The result is the pair of the regions of
  \<^verbatim>\<open>stablehloOp\<close> and of \<^verbatim>\<open>hloOp\<close> afterwards.
\<close>

fun inlineRegions :: "'b list list \<Rightarrow> 'b list list \<Rightarrow> 'b list list \<times> 'b list list" where
  "inlineRegions (stablehloRegion # stablehloRegions) (hloRegion # hloRegions) =
     (let (region', parent') = inlineRegionBefore stablehloRegion hloRegion;
          (stablehloRegions', hloRegions') = inlineRegions stablehloRegions hloRegions
      in (region' # stablehloRegions', parent' # hloRegions'))"
| "inlineRegions stablehloRegions hloRegions = (stablehloRegions, hloRegions)"

text \<open>
  The loop over \<^verbatim>\<open>stablehloOp->getAttrs()\<close>; the last argument is \<^verbatim>\<open>hloAttrs\<close>.
\<close>

fun convertNamedAttrs ::
  "Dialects \<Rightarrow> (string \<times> Attribute) list \<Rightarrow> (string \<times> Attribute) list
    \<Rightarrow> (string \<times> Attribute) list option" where
  "convertNamedAttrs D [] hloAttrs = Some hloAttrs"
| "convertNamedAttrs D ((getName, getValue) # rest) hloAttrs =
     (case convertAttr D getValue of
        None \<Rightarrow> None
      | Some hloAttr \<Rightarrow> convertNamedAttrs D rest (hloAttrs @ [(getName, hloAttr)]))"

text \<open>
  An instance of the class template \<^verbatim>\<open>StablehloToHloOpConverter<StablehloOpTy>\<close>: the
  class it is instantiated for and its type converter, which is the function
  \<^verbatim>\<open>convertTypes\<close> from a list of types to the converted list, or to no value where it
  fails.
\<close>

datatype 't StablehloToHloOpConverter =
  StablehloToHloOpConverter StablehloOpTy "'t list \<Rightarrow> 't list option"

fun rootKind :: "'t StablehloToHloOpConverter \<Rightarrow> StablehloOpTy" where
  "rootKind (StablehloToHloOpConverter StablehloOpTy converter) = StablehloOpTy"

fun getTypeConverter :: "'t StablehloToHloOpConverter \<Rightarrow> ('t list \<Rightarrow> 't list option)" where
  "getTypeConverter (StablehloToHloOpConverter StablehloOpTy converter) = converter"

text \<open>
  \<^verbatim>\<open>StablehloToHloOpConverter::matchAndRewrite\<close>. \<^verbatim>\<open>stablehloOp\<close> is the matched
  instance of the rewriter, \<^verbatim>\<open>adaptor.getOperands()\<close> an argument. The branches of a
  \<^verbatim>\<open>stablehlo::CaseOp\<close> are all its regions. On success the new instance, with the
  regions moved into it, is added to the created instances and the matched instance keeps
  what the loop has left of its regions.
\<close>

fun matchAndRewrite ::
  "Schema \<Rightarrow> Dialects \<Rightarrow> 't StablehloToHloOpConverter \<Rightarrow> 'v list \<Rightarrow> ('t, 'v, 'b) Rewriter
    \<Rightarrow> LogicalResult \<times> ('t, 'v, 'b) Rewriter" where
  "matchAndRewrite S D (StablehloToHloOpConverter StablehloOpTy convertTypes)
       adaptor_getOperands rewriter =
     (let stablehloOp = matched rewriter in
      case convertTypes (resultTypes stablehloOp) of
        None \<Rightarrow> (failure, rewriter)
      | Some hloTypes \<Rightarrow>
          (let hloOperands = adaptor_getOperands in
           case convertNamedAttrs D (attrs stablehloOp) [] of
             None \<Rightarrow> (failure, rewriter)
           | Some hloAttrs \<Rightarrow>
               (let hloOp =
                      (if StablehloOpTy = stablehlo_CaseOp
                       then build (mhlo mhlo_CaseOp) hloTypes hloOperands hloAttrs
                              (length (regions stablehloOp))
                       else build (mhlo (StablehloToHloOp S StablehloOpTy)) hloTypes hloOperands
                              hloAttrs (numRegions S (StablehloToHloOp S StablehloOpTy)));
                    (stablehloRegions, hloRegions) =
                      inlineRegions (regions stablehloOp) (regions hloOp)
                in (success,
                    rewriter\<lparr>matched := stablehloOp\<lparr>regions := stablehloRegions\<rparr>,
                             created := created rewriter @ [hloOp\<lparr>regions := hloRegions\<rparr>]\<rparr>))))"

section \<open>Registration\<close>

text \<open>
  The variadic template \<^verbatim>\<open>populateStablehloToHloPatterns<StablehloOpTypes...>\<close>:
  \<^verbatim>\<open>patterns->add\<close> appends one \<^verbatim>\<open>StablehloToHloOpConverter\<close> for each class of the
  pack, in order, each constructed with the converter. A pattern set is the list of its
  patterns; the context plays no part.
\<close>

definition populateStablehloToHloPatterns_pack ::
  "StablehloOpTy list \<Rightarrow> 't StablehloToHloOpConverter list \<Rightarrow> ('t list \<Rightarrow> 't list option)
    \<Rightarrow> 't StablehloToHloOpConverter list" where
  "populateStablehloToHloPatterns_pack StablehloOpTypes patterns converter =
     patterns @ map (\<lambda>StablehloOpTy. StablehloToHloOpConverter StablehloOpTy converter)
                  StablehloOpTypes"

text \<open>The entry point, which instantiates the template with \<^verbatim>\<open>GET_OP_LIST\<close>.\<close>

definition populateStablehloToHloPatterns ::
  "Schema \<Rightarrow> 't StablehloToHloOpConverter list \<Rightarrow> ('t list \<Rightarrow> 't list option)
    \<Rightarrow> 't StablehloToHloOpConverter list" where
  "populateStablehloToHloPatterns S patterns converter =
     populateStablehloToHloPatterns_pack (GET_OP_LIST S) patterns converter"

section \<open>Examples\<close>

text \<open>
  Two dialects for the examples: the comparison directions agree; for every other enum
  the source dialect has a symbol \<open>HIGHEST\<close> that the target dialect lacks.
\<close>

definition example_Dialects :: Dialects where
  "example_Dialects =
     \<lparr>stablehlo_cases = (\<lambda>Name. case Name of
          ComparisonDirection \<Rightarrow>
            [(''EQ'', 0), (''NE'', 1), (''GE'', 2), (''GT'', 3), (''LE'', 4), (''LT'', 5)]
        | _ \<Rightarrow> [(''DEFAULT'', 0), (''HIGH'', 1), (''HIGHEST'', 2)]),
      mhlo_cases = (\<lambda>Name. case Name of
          ComparisonDirection \<Rightarrow>
            [(''EQ'', 0), (''NE'', 1), (''GE'', 2), (''GT'', 3), (''LE'', 4), (''LT'', 5)]
        | _ \<Rightarrow> [(''DEFAULT'', 0), (''HIGH'', 1)])\<rparr>"

text \<open>
  A schema for the examples: three classes, of which \<open>while\<close> has two regions.
\<close>

definition example_Schema :: Schema where
  "example_Schema =
     \<lparr>StablehloToHloOp = (\<lambda>K. case K of stablehlo_CaseOp \<Rightarrow> mhlo_CaseOp
                                      | stablehlo_Op n \<Rightarrow> mhlo_Op n),
      numRegions = (\<lambda>K. if K = mhlo_Op ''while'' then 2 else 0),
      GET_OP_LIST = [stablehlo_CaseOp, stablehlo_Op ''compare'', stablehlo_Op ''while'']\<rparr>"

text \<open>
  A type converter for the examples: it fails on a list that holds the type \<open>token\<close> and
  returns every other list as it is.
\<close>

definition example_convertTypes :: "string list \<Rightarrow> string list option" where
  "example_convertTypes types = (if ''token'' \<in> set types then None else Some types)"

text \<open>
  The \<open>compare\<close> instance of the scenario, a \<open>case\<close> instance with three regions, and an
  instance with an attribute of an unhandled StableHLO kind.
\<close>

definition example_compare :: "(string, string, nat) Operation" where
  "example_compare =
     \<lparr>opName = stablehlo (stablehlo_Op ''compare''), resultTypes = [''tensor<4xi1>''],
      operands = [''%lhs'', ''%rhs''],
      attrs = [(''comparison_direction'', stablehlo_ComparisonDirectionAttr 2)],
      regions = []\<rparr>"

definition example_case :: "(string, string, nat) Operation" where
  "example_case =
     \<lparr>opName = stablehlo stablehlo_CaseOp, resultTypes = [''tensor<i32>''],
      operands = [''%index''], attrs = [], regions = [[10], [20, 21], [30]]\<rparr>"

definition example_unhandled :: "(string, string, nat) Operation" where
  "example_unhandled =
     \<lparr>opName = stablehlo (stablehlo_Op ''compare''), resultTypes = [''tensor<4xi1>''],
      operands = [''%lhs'', ''%rhs''],
      attrs = [(''comparison_direction'', stablehlo_ComparisonDirectionAttr 2),
               (''extension'', OtherAttr ''stablehlo'' ''#stablehlo.new_kind<1>'')],
      regions = []\<rparr>"

text \<open>A \<open>while\<close> instance with two regions.\<close>

definition example_while :: "(string, string, nat) Operation" where
  "example_while =
     \<lparr>opName = stablehlo (stablehlo_Op ''while''), resultTypes = [''tensor<i32>''],
      operands = [''%init''], attrs = [], regions = [[1, 2], [3]]\<rparr>"

section \<open>Properties of the loops\<close>

lemma those_eq_Some: "those zs = Some ys \<longleftrightarrow> zs = map Some ys"
  by (induction zs arbitrary: ys) (auto split: option.splits)

lemma those_eq_None: "those zs = None \<longleftrightarrow> None \<in> set zs"
  by (induction zs) (auto split: option.splits)

lemma convertAttr_loop_those:
  "convertAttr_loop D xs acc = map_option ((@) acc) (those (map (convertAttr D) xs))"
proof (induction xs arbitrary: acc)
  case Nil
  show ?case by simp
next
  case (Cons x xs)
  show ?case
  proof (cases "convertAttr D x")
    case None
    then show ?thesis by simp
  next
    case (Some y)
    then show ?thesis
      by (cases "those (map (convertAttr D) xs)") (simp_all add: Cons.IH)
  qed
qed

lemma convertAttr_ArrayAttr:
  "convertAttr D (ArrayAttr xs) = map_option ArrayAttr (those (map (convertAttr D) xs))"
  by (cases "those (map (convertAttr D) xs)") (simp_all add: convertAttr_loop_those)

lemma symbolizeEnum_None: "symbolizeEnum cs str = None \<longleftrightarrow> str \<notin> fst ` set cs"
  by (induction cs) (auto simp: image_iff split: if_splits)

lemma symbolizeEnum_Some: "symbolizeEnum cs str = Some w \<Longrightarrow> (str, w) \<in> set cs"
  by (induction cs) (auto split: if_splits)

lemma stringifyEnum_distinct:
  "distinct (map snd cs) \<Longrightarrow> (s, w) \<in> set cs \<Longrightarrow> stringifyEnum cs w = s"
  by (induction cs) (auto simp: rev_image_eqI)

lemma convertAttr_enum:
  "convertAttr D (stablehlo_EnumAttr_get Name v) = RETURN_CONVERTED_ENUM_ATTR D Name v"
  by (cases Name) simp_all

lemma convertAttr_noStablehlo:
  "convertAttr D a = Some b \<Longrightarrow> noStablehloInArrays b"
proof (induction a arbitrary: b)
  case (ArrayAttr xs)
  from ArrayAttr.prems have "map_option ArrayAttr (those (map (convertAttr D) xs)) = Some b"
    by (simp only: convertAttr_ArrayAttr)
  then obtain ys where ys: "those (map (convertAttr D) xs) = Some ys" and b: "b = ArrayAttr ys"
    by auto
  from ys have eq: "map (convertAttr D) xs = map Some ys" by (simp add: those_eq_Some)
  have "noStablehloInArrays y" if "y \<in> set ys" for y
  proof -
    from that obtain i where i: "i < length ys" "ys ! i = y" by (auto simp: in_set_conv_nth)
    from eq have len: "length xs = length ys" by (metis length_map)
    from eq i len have "convertAttr D (xs ! i) = Some y"
      by (metis nth_map)
    moreover have "xs ! i \<in> set xs" using i len by simp
    ultimately show ?thesis using ArrayAttr.IH by blast
  qed
  then show ?case by (simp add: b list_all_iff)
qed (auto simp: RETURN_CONVERTED_ENUM_ATTR_def split: option.splits if_splits)

lemma convertNamedAttrs_Some:
  "convertNamedAttrs D nas acc = Some r \<Longrightarrow>
     \<exists>ys. r = acc @ ys \<and> map fst ys = map fst nas
          \<and> map (Some \<circ> snd) ys = map (convertAttr D \<circ> snd) nas"
proof (induction nas arbitrary: acc r)
  case Nil
  then show ?case by simp
next
  case (Cons na nas)
  obtain n v where na: "na = (n, v)" by (cases na)
  from Cons.prems na obtain w where w: "convertAttr D v = Some w"
    and rest: "convertNamedAttrs D nas (acc @ [(n, w)]) = Some r"
    by (auto split: option.splits)
  from Cons.IH [OF rest] obtain ys where ys: "r = (acc @ [(n, w)]) @ ys"
    "map fst ys = map fst nas" "map (Some \<circ> snd) ys = map (convertAttr D \<circ> snd) nas"
    by blast
  have "r = acc @ ((n, w) # ys)" using ys(1) by simp
  moreover have "map fst ((n, w) # ys) = map fst (na # nas)" using ys(2) na by simp
  moreover have "map (Some \<circ> snd) ((n, w) # ys) = map (convertAttr D \<circ> snd) (na # nas)"
    using ys(3) na w by simp
  ultimately show ?case by blast
qed

lemma convertNamedAttrs_None:
  "convertNamedAttrs D nas acc = None \<longleftrightarrow> (\<exists>na \<in> set nas. convertAttr D (snd na) = None)"
proof (induction nas arbitrary: acc)
  case Nil
  show ?case by simp
next
  case (Cons na nas)
  obtain n v where na: "na = (n, v)" by (cases na)
  show ?case
  proof (cases "convertAttr D v")
    case None
    then show ?thesis by (simp add: na)
  next
    case (Some w)
    then show ?thesis by (simp add: na Cons.IH)
  qed
qed

lemma inlineRegions_fresh:
  "length srs \<le> m \<Longrightarrow>
     inlineRegions srs (replicate m []) =
       (replicate (length srs) [], srs @ replicate (m - length srs) [])"
proof (induction srs arbitrary: m)
  case Nil
  then show ?case by (cases m) simp_all
next
  case (Cons s srs)
  then obtain k where k: "m = Suc k" by (cases m) auto
  with Cons.prems have "length srs \<le> k" by simp
  from Cons.IH [OF this] show ?case
    by (simp add: k inlineRegionBefore_def)
qed

lemma count_rootKind:
  "length (filter (\<lambda>p. rootKind p = K)
             (map (\<lambda>T. StablehloToHloOpConverter T converter) ops)) = count_list ops K"
  by (induction ops) auto

lemma distinct_count_list: "distinct xs \<Longrightarrow> x \<in> set xs \<Longrightarrow> count_list xs x = 1"
  by (induction xs) (auto simp: count_list_0_iff)

subsection \<open>The two outcomes of the pattern\<close>

lemma matchAndRewrite_failure_iff:
  "fst (matchAndRewrite S D (StablehloToHloOpConverter K ct) adaptor rw) = failure \<longleftrightarrow>
     ct (resultTypes (matched rw)) = None
     \<or> convertNamedAttrs D (attrs (matched rw)) [] = None"
  by (simp add: Let_def split: option.splits prod.splits)

lemma matchAndRewrite_failure_state:
  "fst (matchAndRewrite S D (StablehloToHloOpConverter K ct) adaptor rw) = failure \<Longrightarrow>
     snd (matchAndRewrite S D (StablehloToHloOpConverter K ct) adaptor rw) = rw"
  by (simp add: Let_def split: option.splits prod.splits)

lemma matchAndRewrite_success:
  assumes "ct (resultTypes (matched rw)) = Some hloTypes"
    and "convertNamedAttrs D (attrs (matched rw)) [] = Some hloAttrs"
  shows "matchAndRewrite S D (StablehloToHloOpConverter K ct) adaptor rw =
    (success,
     rw\<lparr>matched := (matched rw)\<lparr>regions :=
            fst (inlineRegions (regions (matched rw))
              (replicate (if K = stablehlo_CaseOp then length (regions (matched rw))
                          else numRegions S (StablehloToHloOp S K)) []))\<rparr>,
        created := created rw @
          [(build (if K = stablehlo_CaseOp then mhlo mhlo_CaseOp
                   else mhlo (StablehloToHloOp S K)) hloTypes adaptor hloAttrs
              (if K = stablehlo_CaseOp then length (regions (matched rw))
               else numRegions S (StablehloToHloOp S K)))
           \<lparr>regions :=
              snd (inlineRegions (regions (matched rw))
                (replicate (if K = stablehlo_CaseOp then length (regions (matched rw))
                            else numRegions S (StablehloToHloOp S K)) []))\<rparr>]\<rparr>)"
  using assms by (simp add: Let_def build_def split: prod.splits)

lemma matchAndRewrite_success_iff:
  "fst (matchAndRewrite S D (StablehloToHloOpConverter K ct) adaptor rw) = success \<longleftrightarrow>
     (\<exists>hloTypes hloAttrs. ct (resultTypes (matched rw)) = Some hloTypes
        \<and> convertNamedAttrs D (attrs (matched rw)) [] = Some hloAttrs)"
  by (simp add: Let_def split: option.splits prod.splits)

section \<open>Attribute conversion\<close>

text \<open>
  C3: for each of the eight enum attribute kinds, \<^verbatim>\<open>convertAttr\<close> stringifies the
  source symbol and looks the string up among the cases of the target enum of the same
  kind. It returns the target attribute of the case found, whose name is that string, and
  it fails exactly when the target enum has no case of that name.
\<close>

theorem convertAttr_enum_lookup:
  "convertAttr D (stablehlo_EnumAttr_get Name v) =
     (case symbolizeEnum (mhlo_cases D Name) (stringifyEnum (stablehlo_cases D Name) v) of
        None \<Rightarrow> None
      | Some w \<Rightarrow> Some (mhlo_EnumAttr_get Name w))
   \<and> (convertAttr D (stablehlo_EnumAttr_get Name v) = None \<longleftrightarrow>
        stringifyEnum (stablehlo_cases D Name) v \<notin> fst ` set (mhlo_cases D Name))
   \<and> (\<forall>b. convertAttr D (stablehlo_EnumAttr_get Name v) = Some b \<longrightarrow>
        (\<exists>w. b = mhlo_EnumAttr_get Name w
           \<and> (stringifyEnum (stablehlo_cases D Name) v, w) \<in> set (mhlo_cases D Name)))"
proof -
  let ?s = "stringifyEnum (stablehlo_cases D Name) v"
  let ?r = "symbolizeEnum (mhlo_cases D Name) ?s"
  let ?c = "convertAttr D (stablehlo_EnumAttr_get Name v)"
  have eq: "?c = (case ?r of None \<Rightarrow> None | Some w \<Rightarrow> Some (mhlo_EnumAttr_get Name w))"
    by (simp only: convertAttr_enum RETURN_CONVERTED_ENUM_ATTR_def Let_def)
  have "(?c = None) = (?r = None)"
    by (cases ?r) (simp_all add: eq)
  also have "\<dots> = (?s \<notin> fst ` set (mhlo_cases D Name))"
    by (rule symbolizeEnum_None)
  finally have none: "(?c = None) = (?s \<notin> fst ` set (mhlo_cases D Name))" .
  have some: "\<forall>b. ?c = Some b \<longrightarrow>
      (\<exists>w. b = mhlo_EnumAttr_get Name w \<and> (?s, w) \<in> set (mhlo_cases D Name))"
  proof (intro allI impI)
    fix b
    assume b: "?c = Some b"
    show "\<exists>w. b = mhlo_EnumAttr_get Name w \<and> (?s, w) \<in> set (mhlo_cases D Name)"
    proof (cases ?r)
      case None
      then have "?c = None" by (simp add: eq)
      with b show ?thesis by simp
    next
      case (Some w)
      then have "?c = Some (mhlo_EnumAttr_get Name w)" by (simp add: eq)
      with b have "b = mhlo_EnumAttr_get Name w" by simp
      moreover from Some have "(?s, w) \<in> set (mhlo_cases D Name)" by (rule symbolizeEnum_Some)
      ultimately show ?thesis by (intro exI conjI)
    qed
  qed
  show ?thesis
    apply (rule conjI)
     apply (rule eq)
    apply (rule conjI)
     apply (rule none)
    apply (rule some)
    done
qed

theorem convertAttr_enum_lookup_witness:
  "convertAttr example_Dialects (stablehlo_EnumAttr_get ComparisonDirection 2) =
     Some (mhlo_ComparisonDirectionAttr 2)
   \<and> convertAttr example_Dialects (stablehlo_EnumAttr_get Precision 2) = None
   \<and> stringifyEnum (stablehlo_cases example_Dialects Precision) 2 = ''HIGHEST''
   \<and> ''HIGHEST'' \<notin> fst ` set (mhlo_cases example_Dialects Precision)"
proof -
  have s: "stringifyEnum (stablehlo_cases example_Dialects Precision) 2 = ''HIGHEST''"
    by (simp add: example_Dialects_def)
  have n: "''HIGHEST'' \<notin> fst ` set (mhlo_cases example_Dialects Precision)"
    by (simp add: example_Dialects_def)
  have g: "symbolizeEnum (mhlo_cases example_Dialects ComparisonDirection)
      (stringifyEnum (stablehlo_cases example_Dialects ComparisonDirection) 2) = Some 2"
    by (simp add: example_Dialects_def)
  have "convertAttr example_Dialects (stablehlo_EnumAttr_get ComparisonDirection 2) =
      Some (mhlo_ComparisonDirectionAttr 2)"
    using conjunct1 [OF convertAttr_enum_lookup [of example_Dialects ComparisonDirection 2]]
    by (simp only: g option.case mhlo_EnumAttr_get.simps)
  moreover have "convertAttr example_Dialects (stablehlo_EnumAttr_get Precision 2) = None"
    by (rule iffD2 [OF conjunct1 [OF conjunct2
          [OF convertAttr_enum_lookup [of example_Dialects Precision 2]], unfolded s] n])
  ultimately show ?thesis using s n by (intro conjI)
qed

text \<open>
  C4: an attribute of the StableHLO namespace that is of none of the kinds
  \<^verbatim>\<open>convertAttr\<close> casts to is not converted: the result is no value, and never the
  attribute itself.
\<close>

theorem convertAttr_unhandled_fails:
  "getNamespace a = ''stablehlo'' \<Longrightarrow> \<not> isHandledKind a \<Longrightarrow>
     convertAttr D a = None \<and> convertAttr D a \<noteq> Some a"
  by (cases a) simp_all

theorem convertAttr_unhandled_fails_witness:
  "getNamespace (OtherAttr ''stablehlo'' ''#stablehlo.new_kind<1>'') = ''stablehlo''
   \<and> \<not> isHandledKind (OtherAttr ''stablehlo'' ''#stablehlo.new_kind<1>'')
   \<and> convertAttr example_Dialects (OtherAttr ''stablehlo'' ''#stablehlo.new_kind<1>'') = None"
  using convertAttr_unhandled_fails
    [of "OtherAttr ''stablehlo'' ''#stablehlo.new_kind<1>''" example_Dialects]
  by simp

text \<open>
  C5: the empty \<^verbatim>\<open>ArrayAttr\<close> is converted to the empty \<^verbatim>\<open>ArrayAttr\<close>; an
  \<^verbatim>\<open>ArrayAttr\<close> with an element whose conversion fails is not converted; and where
  every element is converted, the result is an \<^verbatim>\<open>ArrayAttr\<close> of the same length whose
  element at each index is the conversion of the source element at that index.
\<close>

theorem convertAttr_array_elementwise:
  "convertAttr D (ArrayAttr []) = Some (ArrayAttr [])
   \<and> ((\<exists>x \<in> set xs. convertAttr D x = None) \<longrightarrow> convertAttr D (ArrayAttr xs) = None)
   \<and> ((\<forall>x \<in> set xs. convertAttr D x \<noteq> None) \<longrightarrow>
        (\<exists>ys. convertAttr D (ArrayAttr xs) = Some (ArrayAttr ys)
            \<and> length ys = length xs
            \<and> (\<forall>i < length xs. convertAttr D (xs ! i) = Some (ys ! i))))"
proof (intro conjI impI)
  show "convertAttr D (ArrayAttr []) = Some (ArrayAttr [])" by simp
next
  assume "\<exists>x \<in> set xs. convertAttr D x = None"
  then have "None \<in> set (map (convertAttr D) xs)" by force
  then have "those (map (convertAttr D) xs) = None" by (simp only: those_eq_None)
  then show "convertAttr D (ArrayAttr xs) = None" by (simp only: convertAttr_ArrayAttr option.map)
next
  assume all: "\<forall>x \<in> set xs. convertAttr D x \<noteq> None"
  then have "None \<notin> set (map (convertAttr D) xs)" by force
  then have "those (map (convertAttr D) xs) \<noteq> None" by (simp only: those_eq_None not_False_eq_True)
  then obtain ys where ys: "those (map (convertAttr D) xs) = Some ys" by blast
  then have eq: "map (convertAttr D) xs = map Some ys" by (simp only: those_eq_Some)
  then have len: "length ys = length xs" by (metis length_map)
  have nth: "convertAttr D (xs ! i) = Some (ys ! i)" if "i < length xs" for i
    using eq that len by (metis nth_map)
  have "convertAttr D (ArrayAttr xs) = Some (ArrayAttr ys)"
    by (simp only: convertAttr_ArrayAttr ys option.map)
  with len nth
  show "\<exists>ys. convertAttr D (ArrayAttr xs) = Some (ArrayAttr ys) \<and> length ys = length xs
          \<and> (\<forall>i < length xs. convertAttr D (xs ! i) = Some (ys ! i))"
    by blast
qed

theorem convertAttr_array_elementwise_witness:
  "convertAttr example_Dialects (stablehlo_PrecisionAttr 2) = None
   \<and> convertAttr example_Dialects
       (ArrayAttr [stablehlo_PrecisionAttr 0, stablehlo_PrecisionAttr 2]) = None
   \<and> convertAttr example_Dialects (stablehlo_PrecisionAttr 1) = Some (mhlo_PrecisionAttr 1)
   \<and> convertAttr example_Dialects (OtherAttr ''builtin'' ''unit'') =
       Some (OtherAttr ''builtin'' ''unit'')
   \<and> convertAttr example_Dialects
       (ArrayAttr [stablehlo_PrecisionAttr 1, OtherAttr ''builtin'' ''unit'']) =
     Some (ArrayAttr [mhlo_PrecisionAttr 1, OtherAttr ''builtin'' ''unit''])"
proof -
  have bad: "\<exists>x \<in> set [stablehlo_PrecisionAttr 0, stablehlo_PrecisionAttr 2].
      convertAttr example_Dialects x = None"
    by (simp add: example_Dialects_def RETURN_CONVERTED_ENUM_ATTR_def)
  have good: "\<forall>x \<in> set [stablehlo_PrecisionAttr 1, OtherAttr ''builtin'' ''unit''].
      convertAttr example_Dialects x \<noteq> None"
    by (simp add: example_Dialects_def RETURN_CONVERTED_ENUM_ATTR_def)
  from bad good
    convertAttr_array_elementwise
      [of example_Dialects "[stablehlo_PrecisionAttr 0, stablehlo_PrecisionAttr 2]"]
    convertAttr_array_elementwise
      [of example_Dialects "[stablehlo_PrecisionAttr 1, OtherAttr ''builtin'' ''unit'']"]
  show ?thesis
    by (simp add: example_Dialects_def RETURN_CONVERTED_ENUM_ATTR_def)
qed

text \<open>
  C6: an attribute outside the StableHLO namespace that is not an \<^verbatim>\<open>ArrayAttr\<close> is
  returned as it is. An \<^verbatim>\<open>ArrayAttr\<close>, which is outside the StableHLO namespace too, is
  not returned as it is: its result is the \<^verbatim>\<open>ArrayAttr\<close> of the conversions of its
  elements, and no value where one of them fails.
\<close>

theorem convertAttr_foreign_unchanged:
  "(getNamespace a \<noteq> ''stablehlo'' \<and> \<not> isa_ArrayAttr a \<longrightarrow> convertAttr D a = Some a)
   \<and> getNamespace (ArrayAttr xs) \<noteq> ''stablehlo''
   \<and> convertAttr D (ArrayAttr xs) = map_option ArrayAttr (those (map (convertAttr D) xs))"
proof (intro conjI impI)
  assume "getNamespace a \<noteq> ''stablehlo'' \<and> \<not> isa_ArrayAttr a"
  then show "convertAttr D a = Some a" by (cases a) simp_all
next
  show "getNamespace (ArrayAttr xs) \<noteq> ''stablehlo''" by simp
next
  show "convertAttr D (ArrayAttr xs) = map_option ArrayAttr (those (map (convertAttr D) xs))"
    by (rule convertAttr_ArrayAttr)
qed

theorem convertAttr_foreign_unchanged_witness:
  "getNamespace (OtherAttr ''builtin'' ''42 : i64'') \<noteq> ''stablehlo''
   \<and> \<not> isa_ArrayAttr (OtherAttr ''builtin'' ''42 : i64'')
   \<and> convertAttr example_Dialects (OtherAttr ''builtin'' ''42 : i64'') =
       Some (OtherAttr ''builtin'' ''42 : i64'')
   \<and> convertAttr example_Dialects (ArrayAttr [stablehlo_ChannelHandleAttr 1 2]) =
       Some (ArrayAttr [mhlo_ChannelHandleAttr 1 2])"
  using convertAttr_foreign_unchanged
    [of "OtherAttr ''builtin'' ''42 : i64''" example_Dialects "[stablehlo_ChannelHandleAttr 1 2]"]
  by simp

text \<open>
  C8: where the cases of the target enum have distinct numbers and the name of the
  source symbol is the name of a case of the target enum, the converted attribute holds a
  target symbol whose name, stringified in the target dialect, is the name of the source
  symbol.
\<close>

theorem enum_round_trip:
  assumes "distinct (map snd (mhlo_cases D Name))"
    and "stringifyEnum (stablehlo_cases D Name) v \<in> fst ` set (mhlo_cases D Name)"
  shows "\<exists>w. convertAttr D (stablehlo_EnumAttr_get Name v) = Some (mhlo_EnumAttr_get Name w)
           \<and> stringifyEnum (mhlo_cases D Name) w = stringifyEnum (stablehlo_cases D Name) v"
proof -
  let ?s = "stringifyEnum (stablehlo_cases D Name) v"
  from assms(2) have "symbolizeEnum (mhlo_cases D Name) ?s \<noteq> None"
    by (simp only: symbolizeEnum_None not_not)
  then obtain w where w: "symbolizeEnum (mhlo_cases D Name) ?s = Some w" by blast
  then have "(?s, w) \<in> set (mhlo_cases D Name)" by (rule symbolizeEnum_Some)
  with assms(1) have "stringifyEnum (mhlo_cases D Name) w = ?s" by (rule stringifyEnum_distinct)
  moreover have "convertAttr D (stablehlo_EnumAttr_get Name v) = Some (mhlo_EnumAttr_get Name w)"
    by (simp add: convertAttr_enum RETURN_CONVERTED_ENUM_ATTR_def w)
  ultimately show ?thesis by blast
qed

theorem enum_round_trip_witness:
  "distinct (map snd (mhlo_cases example_Dialects ComparisonDirection))
   \<and> stringifyEnum (stablehlo_cases example_Dialects ComparisonDirection) 2
       \<in> fst ` set (mhlo_cases example_Dialects ComparisonDirection)
   \<and> (\<exists>w. convertAttr example_Dialects (stablehlo_EnumAttr_get ComparisonDirection 2) =
            Some (mhlo_EnumAttr_get ComparisonDirection w)
        \<and> stringifyEnum (mhlo_cases example_Dialects ComparisonDirection) w =
            stringifyEnum (stablehlo_cases example_Dialects ComparisonDirection) 2)"
proof -
  have d: "distinct (map snd (mhlo_cases example_Dialects ComparisonDirection))"
    by (simp add: example_Dialects_def)
  have k: "stringifyEnum (stablehlo_cases example_Dialects ComparisonDirection) 2
      \<in> fst ` set (mhlo_cases example_Dialects ComparisonDirection)"
    by (simp add: example_Dialects_def)
  from d k enum_round_trip [OF d k] show ?thesis by blast
qed

text \<open>
  C10, as amended: where \<^verbatim>\<open>convertAttr\<close> returns an attribute, that attribute is not of
  the StableHLO namespace and holds no attribute of the StableHLO namespace at any depth
  of \<^verbatim>\<open>ArrayAttr\<close> nesting. Each of the five record kinds is mapped to the MHLO attribute
  of the same kind with the same fields, each of the eight enum kinds to the MHLO attribute
  of the same enum with the symbol looked up. An attribute that holds attributes otherwise,
  a \<^verbatim>\<open>DictionaryAttr\<close>, is returned as it is, with whatever it holds.
\<close>

theorem convertAttr_leaves_no_stablehlo_in_arrays:
  "(\<forall>b. convertAttr D a = Some b \<longrightarrow>
       getNamespace b \<noteq> ''stablehlo'' \<and> noStablehloInArrays b)
   \<and> convertAttr D (stablehlo_ChannelHandleAttr handle type) =
       Some (mhlo_ChannelHandleAttr handle type)
   \<and> convertAttr D (stablehlo_ConvDimensionNumbersAttr ib if' is ki ko ks ob of' os) =
       Some (mhlo_ConvDimensionNumbersAttr ib if' is ki ko ks ob of' os)
   \<and> convertAttr D (stablehlo_DotDimensionNumbersAttr lb rb lc rc) =
       Some (mhlo_DotDimensionNumbersAttr lb rb lc rc)
   \<and> convertAttr D (stablehlo_GatherDimensionNumbersAttr od cs sm iv) =
       Some (mhlo_GatherDimensionNumbersAttr od cs sm iv)
   \<and> convertAttr D (stablehlo_ScatterDimensionNumbersAttr uw iw sd sv) =
       Some (mhlo_ScatterDimensionNumbersAttr uw iw sd sv)
   \<and> (\<forall>b. convertAttr D (stablehlo_EnumAttr_get Name v) = Some b \<longrightarrow>
        (\<exists>w. b = mhlo_EnumAttr_get Name w
           \<and> symbolizeEnum (mhlo_cases D Name) (stringifyEnum (stablehlo_cases D Name) v) =
               Some w))
   \<and> convertAttr D (DictionaryAttr nas) = Some (DictionaryAttr nas)"
proof -
  have res: "\<forall>b. convertAttr D a = Some b \<longrightarrow>
      getNamespace b \<noteq> ''stablehlo'' \<and> noStablehloInArrays b"
  proof (intro allI impI)
    fix b
    assume "convertAttr D a = Some b"
    then have no: "noStablehloInArrays b" by (rule convertAttr_noStablehlo)
    then have "getNamespace b \<noteq> ''stablehlo''" by (cases b) simp_all
    with no show "getNamespace b \<noteq> ''stablehlo'' \<and> noStablehloInArrays b" by (rule conjI [rotated])
  qed
  have enum: "\<forall>b. convertAttr D (stablehlo_EnumAttr_get Name v) = Some b \<longrightarrow>
      (\<exists>w. b = mhlo_EnumAttr_get Name w
         \<and> symbolizeEnum (mhlo_cases D Name) (stringifyEnum (stablehlo_cases D Name) v) =
             Some w)"
    by (simp add: convertAttr_enum RETURN_CONVERTED_ENUM_ATTR_def split: option.splits)
  have dict: "convertAttr D (DictionaryAttr nas) = Some (DictionaryAttr nas)" by simp
  show ?thesis
    apply (rule conjI, rule res)
    apply (rule conjI, simp)
    apply (rule conjI, simp)
    apply (rule conjI, simp)
    apply (rule conjI, simp)
    apply (rule conjI, simp)
    apply (rule conjI, rule enum)
    apply (rule dict)
    done
qed

theorem convertAttr_leaves_no_stablehlo_in_arrays_witness:
  "convertAttr example_Dialects
     (ArrayAttr [ArrayAttr [stablehlo_ComparisonDirectionAttr 2], stablehlo_ChannelHandleAttr 1 2]) =
     Some (ArrayAttr [ArrayAttr [mhlo_ComparisonDirectionAttr 2], mhlo_ChannelHandleAttr 1 2])
   \<and> getNamespace
       (ArrayAttr [ArrayAttr [mhlo_ComparisonDirectionAttr 2], mhlo_ChannelHandleAttr 1 2])
       \<noteq> ''stablehlo''
   \<and> noStablehloInArrays
       (ArrayAttr [ArrayAttr [mhlo_ComparisonDirectionAttr 2], mhlo_ChannelHandleAttr 1 2])"
proof -
  let ?a = "ArrayAttr [ArrayAttr [stablehlo_ComparisonDirectionAttr 2],
      stablehlo_ChannelHandleAttr 1 2]"
  let ?b = "ArrayAttr [ArrayAttr [mhlo_ComparisonDirectionAttr 2], mhlo_ChannelHandleAttr 1 2]"
  have c: "convertAttr example_Dialects ?a = Some ?b"
    by (simp add: example_Dialects_def RETURN_CONVERTED_ENUM_ATTR_def)
  note inst = conjunct1 [OF convertAttr_leaves_no_stablehlo_in_arrays
      [of example_Dialects ?a]]
  from inst have "convertAttr example_Dialects ?a = Some ?b \<longrightarrow>
      getNamespace ?b \<noteq> ''stablehlo'' \<and> noStablehloInArrays ?b"
    by (rule spec)
  from this c have "getNamespace ?b \<noteq> ''stablehlo'' \<and> noStablehloInArrays ?b"
    by (rule mp)
  with c show ?thesis by (rule conjI)
qed

text \<open>
  C10, as stated, fails: a \<^verbatim>\<open>DictionaryAttr\<close> that holds an attribute of the StableHLO
  namespace is converted, to itself, and the result still holds that attribute.
\<close>

theorem convertAttr_dictionary_counterexample:
  "convertAttr example_Dialects (DictionaryAttr [(''precision'', stablehlo_PrecisionAttr 0)]) =
     Some (DictionaryAttr [(''precision'', stablehlo_PrecisionAttr 0)])
   \<and> \<not> noStablehloAttr (DictionaryAttr [(''precision'', stablehlo_PrecisionAttr 0)])"
  by simp

section \<open>The conversion pattern and the registration\<close>

text \<open>
  C1: where the type converter converts the result types of the matched instance and
  every attribute value of the instance is converted, the pattern succeeds and creates
  exactly one instance. That instance has the converted types as its result types, the
  operands of the adaptor in their order, and for each attribute of the source, in order,
  an attribute of the same name whose value is the converted value.
\<close>

theorem matchAndRewrite_replacement:
  assumes types: "ct (resultTypes (matched rw)) = Some hloTypes"
    and attrs: "\<forall>na \<in> set (attrs (matched rw)). convertAttr D (snd na) \<noteq> None"
  shows "\<exists>hloOp rw'.
      matchAndRewrite S D (StablehloToHloOpConverter K ct) adaptor rw = (success, rw')
      \<and> created rw' = created rw @ [hloOp]
      \<and> opName hloOp = mhlo (if K = stablehlo_CaseOp then mhlo_CaseOp else StablehloToHloOp S K)
      \<and> resultTypes hloOp = hloTypes
      \<and> operands hloOp = adaptor
      \<and> map fst (attrs hloOp) = map fst (attrs (matched rw))
      \<and> map (Some \<circ> snd) (attrs hloOp) = map (convertAttr D \<circ> snd) (attrs (matched rw))"
proof -
  from attrs have "convertNamedAttrs D (attrs (matched rw)) [] \<noteq> None"
    by (simp add: convertNamedAttrs_None)
  then obtain hloAttrs where h: "convertNamedAttrs D (attrs (matched rw)) [] = Some hloAttrs"
    by blast
  from convertNamedAttrs_Some [OF h]
  have names: "map fst hloAttrs = map fst (attrs (matched rw))"
    and vals: "map (Some \<circ> snd) hloAttrs = map (convertAttr D \<circ> snd) (attrs (matched rw))"
    by auto
  let ?n = "if K = stablehlo_CaseOp then length (regions (matched rw))
            else numRegions S (StablehloToHloOp S K)"
  let ?moved = "inlineRegions (regions (matched rw)) (replicate ?n [])"
  let ?hloOp = "(build (if K = stablehlo_CaseOp then mhlo mhlo_CaseOp
                        else mhlo (StablehloToHloOp S K)) hloTypes adaptor hloAttrs ?n)
                  \<lparr>regions := snd ?moved\<rparr>"
  let ?rw' = "rw\<lparr>matched := (matched rw)\<lparr>regions := fst ?moved\<rparr>,
                 created := created rw @ [?hloOp]\<rparr>"
  have run: "matchAndRewrite S D (StablehloToHloOpConverter K ct) adaptor rw = (success, ?rw')"
    by (rule matchAndRewrite_success
        [where ct = ct and rw = rw and S = S and K = K and adaptor = adaptor, OF types h])
  have c: "created ?rw' = created rw @ [?hloOp]" by simp
  have n: "opName ?hloOp = mhlo (if K = stablehlo_CaseOp then mhlo_CaseOp else StablehloToHloOp S K)"
    by (simp add: build_def)
  have t: "resultTypes ?hloOp = hloTypes" by (simp add: build_def)
  have o: "operands ?hloOp = adaptor" by (simp add: build_def)
  have a1: "map fst (attrs ?hloOp) = map fst (attrs (matched rw))"
    by (simp add: build_def names)
  have a2: "map (Some \<circ> snd) (attrs ?hloOp) = map (convertAttr D \<circ> snd) (attrs (matched rw))"
    by (simp add: build_def vals)
  show ?thesis
    by (rule exI [of _ ?hloOp], rule exI [of _ ?rw'], intro conjI) (fact run c n t o a1 a2)+
qed

theorem matchAndRewrite_replacement_witness:
  "matchAndRewrite example_Schema example_Dialects
       (StablehloToHloOpConverter (stablehlo_Op ''compare'') example_convertTypes)
       [''%lhs_hlo'', ''%rhs_hlo''] \<lparr>matched = example_compare, created = []\<rparr> =
     (success,
      \<lparr>matched = example_compare,
       created = [\<lparr>opName = mhlo (mhlo_Op ''compare''), resultTypes = [''tensor<4xi1>''],
                   operands = [''%lhs_hlo'', ''%rhs_hlo''],
                   attrs = [(''comparison_direction'', mhlo_ComparisonDirectionAttr 2)],
                   regions = []\<rparr>]\<rparr>)
   \<and> (\<exists>hloOp rw'.
        matchAndRewrite example_Schema example_Dialects
          (StablehloToHloOpConverter (stablehlo_Op ''compare'') example_convertTypes)
          [''%lhs_hlo'', ''%rhs_hlo''] \<lparr>matched = example_compare, created = []\<rparr> =
          (success, rw')
        \<and> created rw' = [hloOp]
        \<and> resultTypes hloOp = [''tensor<4xi1>'']
        \<and> operands hloOp = [''%lhs_hlo'', ''%rhs_hlo'']
        \<and> map fst (attrs hloOp) = [''comparison_direction''])"
proof -
  let ?rw = "\<lparr>matched = example_compare, created = []\<rparr>"
  have t: "example_convertTypes (resultTypes (matched ?rw)) = Some [''tensor<4xi1>'']"
    by (simp add: example_compare_def example_convertTypes_def)
  have a: "\<forall>na \<in> set (attrs (matched ?rw)). convertAttr example_Dialects (snd na) \<noteq> None"
    by (simp add: example_compare_def example_Dialects_def RETURN_CONVERTED_ENUM_ATTR_def)
  have run: "matchAndRewrite example_Schema example_Dialects
       (StablehloToHloOpConverter (stablehlo_Op ''compare'') example_convertTypes)
       [''%lhs_hlo'', ''%rhs_hlo''] ?rw =
     (success,
      \<lparr>matched = example_compare,
       created = [\<lparr>opName = mhlo (mhlo_Op ''compare''), resultTypes = [''tensor<4xi1>''],
                   operands = [''%lhs_hlo'', ''%rhs_hlo''],
                   attrs = [(''comparison_direction'', mhlo_ComparisonDirectionAttr 2)],
                   regions = []\<rparr>]\<rparr>)"
    by (simp add: example_compare_def example_convertTypes_def example_Dialects_def
        example_Schema_def RETURN_CONVERTED_ENUM_ATTR_def build_def)
  from matchAndRewrite_replacement [where ct = example_convertTypes and rw = ?rw
      and S = example_Schema and K = "stablehlo_Op ''compare''"
      and adaptor = "[''%lhs_hlo'', ''%rhs_hlo'']", OF t a]
  obtain hloOp rw' where
    "matchAndRewrite example_Schema example_Dialects
       (StablehloToHloOpConverter (stablehlo_Op ''compare'') example_convertTypes)
       [''%lhs_hlo'', ''%rhs_hlo''] ?rw = (success, rw')"
    "created rw' = [hloOp]" "resultTypes hloOp = [''tensor<4xi1>'']"
    "operands hloOp = [''%lhs_hlo'', ''%rhs_hlo'']"
    "map fst (attrs hloOp) = [''comparison_direction'']"
    by (auto simp: example_compare_def)
  note found = this
  have "\<exists>hloOp rw'.
        matchAndRewrite example_Schema example_Dialects
          (StablehloToHloOpConverter (stablehlo_Op ''compare'') example_convertTypes)
          [''%lhs_hlo'', ''%rhs_hlo''] ?rw = (success, rw')
        \<and> created rw' = [hloOp]
        \<and> resultTypes hloOp = [''tensor<4xi1>'']
        \<and> operands hloOp = [''%lhs_hlo'', ''%rhs_hlo'']
        \<and> map fst (attrs hloOp) = [''comparison_direction'']"
    by (rule exI [of _ hloOp], rule exI [of _ rw'], intro conjI) (fact found)+
  with run show ?thesis by (rule conjI)
qed

text \<open>
  C2: the pattern fails exactly when the type converter fails on the result types or the
  conversion of some attribute value fails, and where it fails the matched instance and
  the created instances are as they were before the call.
\<close>

theorem matchAndRewrite_atomic:
  "(fst (matchAndRewrite S D (StablehloToHloOpConverter K ct) adaptor rw) = failure \<longleftrightarrow>
      ct (resultTypes (matched rw)) = None
      \<or> (\<exists>na \<in> set (attrs (matched rw)). convertAttr D (snd na) = None))
   \<and> (fst (matchAndRewrite S D (StablehloToHloOpConverter K ct) adaptor rw) = failure \<longrightarrow>
        snd (matchAndRewrite S D (StablehloToHloOpConverter K ct) adaptor rw) = rw)"
proof (rule conjI)
  show "fst (matchAndRewrite S D (StablehloToHloOpConverter K ct) adaptor rw) = failure \<longleftrightarrow>
      ct (resultTypes (matched rw)) = None
      \<or> (\<exists>na \<in> set (attrs (matched rw)). convertAttr D (snd na) = None)"
    by (simp only: matchAndRewrite_failure_iff convertNamedAttrs_None)
next
  show "fst (matchAndRewrite S D (StablehloToHloOpConverter K ct) adaptor rw) = failure \<longrightarrow>
        snd (matchAndRewrite S D (StablehloToHloOpConverter K ct) adaptor rw) = rw"
    by (rule impI) (rule matchAndRewrite_failure_state)
qed

theorem matchAndRewrite_atomic_witness:
  "convertAttr example_Dialects (OtherAttr ''stablehlo'' ''#stablehlo.new_kind<1>'') = None
   \<and> fst (matchAndRewrite example_Schema example_Dialects
        (StablehloToHloOpConverter (stablehlo_Op ''compare'') example_convertTypes)
        [''%lhs_hlo'', ''%rhs_hlo''] \<lparr>matched = example_unhandled, created = []\<rparr>) = failure
   \<and> snd (matchAndRewrite example_Schema example_Dialects
        (StablehloToHloOpConverter (stablehlo_Op ''compare'') example_convertTypes)
        [''%lhs_hlo'', ''%rhs_hlo''] \<lparr>matched = example_unhandled, created = []\<rparr>) =
      \<lparr>matched = example_unhandled, created = []\<rparr>"
proof -
  let ?rw = "\<lparr>matched = example_unhandled, created = []\<rparr>"
  let ?run = "matchAndRewrite example_Schema example_Dialects
        (StablehloToHloOpConverter (stablehlo_Op ''compare'') example_convertTypes)
        [''%lhs_hlo'', ''%rhs_hlo''] ?rw"
  note inst = matchAndRewrite_atomic [of example_Schema example_Dialects
      "stablehlo_Op ''compare''" example_convertTypes "[''%lhs_hlo'', ''%rhs_hlo'']" ?rw]
  have n: "convertAttr example_Dialects (OtherAttr ''stablehlo'' ''#stablehlo.new_kind<1>'') = None"
    by simp
  have "\<exists>na \<in> set (attrs (matched ?rw)). convertAttr example_Dialects (snd na) = None"
    by (simp add: example_unhandled_def)
  then have f: "fst ?run = failure"
    using conjunct1 [OF inst] by blast
  then have "snd ?run = ?rw"
    using conjunct2 [OF inst] by blast
  with n f show ?thesis by (intro conjI)
qed

text \<open>
  C7: where the pattern succeeds, and for a class other than \<^verbatim>\<open>CaseOp\<close> the builder
  of the target class adds at least as many regions as the matched instance has, the
  regions of the matched instance are, in order, the first regions of the created
  instance, and the matched instance is left with empty regions. For \<^verbatim>\<open>CaseOp\<close> the
  created instance is built with the number of regions of the matched instance as its
  region count, and its regions are exactly those of the matched instance.
\<close>

theorem matchAndRewrite_regions:
  assumes run: "matchAndRewrite S D (StablehloToHloOpConverter K ct) adaptor rw = (success, rw')"
    and schema: "K \<noteq> stablehlo_CaseOp \<longrightarrow>
      length (regions (matched rw)) \<le> numRegions S (StablehloToHloOp S K)"
  shows "\<exists>hloOp. created rw' = created rw @ [hloOp]
      \<and> take (length (regions (matched rw))) (regions hloOp) = regions (matched rw)
      \<and> regions (matched rw') = replicate (length (regions (matched rw))) []
      \<and> (K = stablehlo_CaseOp \<longrightarrow>
           (\<exists>hloTypes hloAttrs.
              hloOp = (build (mhlo mhlo_CaseOp) hloTypes adaptor hloAttrs
                         (length (regions (matched rw))))\<lparr>regions := regions (matched rw)\<rparr>))"
proof -
  let ?srs = "regions (matched rw)"
  let ?n = "if K = stablehlo_CaseOp then length ?srs else numRegions S (StablehloToHloOp S K)"
  from run have "fst (matchAndRewrite S D (StablehloToHloOpConverter K ct) adaptor rw) = success"
    by simp
  then obtain hloTypes hloAttrs where t: "ct (resultTypes (matched rw)) = Some hloTypes"
    and a: "convertNamedAttrs D (attrs (matched rw)) [] = Some hloAttrs"
    by (auto simp only: matchAndRewrite_success_iff)
  from schema have le: "length ?srs \<le> ?n" by simp
  note moved = inlineRegions_fresh [OF le]
  from run matchAndRewrite_success
    [where ct = ct and rw = rw and S = S and K = K and adaptor = adaptor, OF t a]
  have rw': "rw' = rw\<lparr>matched := (matched rw)\<lparr>regions := replicate (length ?srs) []\<rparr>,
      created := created rw @
        [(build (if K = stablehlo_CaseOp then mhlo mhlo_CaseOp
                 else mhlo (StablehloToHloOp S K)) hloTypes adaptor hloAttrs ?n)
         \<lparr>regions := ?srs @ replicate (?n - length ?srs) []\<rparr>]\<rparr>"
    by (simp only: moved fst_conv snd_conv prod.inject)
  show ?thesis
    apply (rule exI)
    apply (rule conjI)
     apply (simp add: rw')
    apply (intro conjI impI)
      apply simp
     apply (simp add: rw')
    apply (rule exI, rule exI)
    apply simp
    done
qed

theorem matchAndRewrite_regions_witness:
  "matchAndRewrite example_Schema example_Dialects
       (StablehloToHloOpConverter stablehlo_CaseOp example_convertTypes)
       [''%index_hlo''] \<lparr>matched = example_case, created = []\<rparr> =
     (success,
      \<lparr>matched = example_case\<lparr>regions := [[], [], []]\<rparr>,
       created = [(build (mhlo mhlo_CaseOp) [''tensor<i32>''] [''%index_hlo''] [] 3)
                    \<lparr>regions := [[10], [20, 21], [30]]\<rparr>]\<rparr>)
   \<and> matchAndRewrite example_Schema example_Dialects
       (StablehloToHloOpConverter (stablehlo_Op ''while'') example_convertTypes)
       [''%init_hlo''] \<lparr>matched = example_while, created = []\<rparr> =
     (success,
      \<lparr>matched = example_while\<lparr>regions := [[], []]\<rparr>,
       created = [(build (mhlo (mhlo_Op ''while'')) [''tensor<i32>''] [''%init_hlo''] [] 2)
                    \<lparr>regions := [[1, 2], [3]]\<rparr>]\<rparr>)
   \<and> length (regions example_while)
       \<le> numRegions example_Schema (StablehloToHloOp example_Schema (stablehlo_Op ''while''))
   \<and> (\<exists>hloOp. [(build (mhlo (mhlo_Op ''while'')) [''tensor<i32>''] [''%init_hlo''] [] 2)
                    \<lparr>regions := [[1, 2], [3 :: nat]]\<rparr>] = [hloOp]
        \<and> take (length (regions example_while)) (regions hloOp) = regions example_while)"
proof -
  let ?rw = "\<lparr>matched = example_while, created = []\<rparr>"
  let ?rw' = "\<lparr>matched = example_while\<lparr>regions := [[], []]\<rparr>,
       created = [(build (mhlo (mhlo_Op ''while'')) [''tensor<i32>''] [''%init_hlo''] [] 2)
                    \<lparr>regions := [[1, 2], [3]]\<rparr>]\<rparr>"
  have c: "matchAndRewrite example_Schema example_Dialects
       (StablehloToHloOpConverter stablehlo_CaseOp example_convertTypes)
       [''%index_hlo''] \<lparr>matched = example_case, created = []\<rparr> =
     (success,
      \<lparr>matched = example_case\<lparr>regions := [[], [], []]\<rparr>,
       created = [(build (mhlo mhlo_CaseOp) [''tensor<i32>''] [''%index_hlo''] [] 3)
                    \<lparr>regions := [[10], [20, 21], [30]]\<rparr>]\<rparr>)"
    by (simp add: example_case_def example_convertTypes_def build_def inlineRegionBefore_def
        numeral_3_eq_3)
  have w: "matchAndRewrite example_Schema example_Dialects
       (StablehloToHloOpConverter (stablehlo_Op ''while'') example_convertTypes)
       [''%init_hlo''] ?rw = (success, ?rw')"
    by (simp add: example_while_def example_convertTypes_def example_Schema_def build_def
        inlineRegionBefore_def numeral_2_eq_2)
  have s: "stablehlo_Op ''while'' \<noteq> stablehlo_CaseOp \<longrightarrow>
      length (regions (matched ?rw))
        \<le> numRegions example_Schema (StablehloToHloOp example_Schema (stablehlo_Op ''while''))"
    by (simp add: example_while_def example_Schema_def)
  then have le: "length (regions example_while)
       \<le> numRegions example_Schema (StablehloToHloOp example_Schema (stablehlo_Op ''while''))"
    by simp
  from matchAndRewrite_regions [OF w s]
  have "\<exists>hloOp. [(build (mhlo (mhlo_Op ''while'')) [''tensor<i32>''] [''%init_hlo''] [] 2)
                    \<lparr>regions := [[1, 2], [3 :: nat]]\<rparr>] = [hloOp]
        \<and> take (length (regions example_while)) (regions hloOp) = regions example_while"
    by auto
  with c w le show ?thesis by (intro conjI)
qed

text \<open>
  C9: the entry point appends to the pattern set one pattern for each entry of the list
  of operation classes, in the order of the list, each holding the given type converter.
  For every class the number of patterns added for it is the number of its occurrences in
  the list: one for every class of a list without repetitions, none for a class that is
  not in the list.
\<close>

theorem populate_one_rule_per_kind:
  "\<exists>added. populateStablehloToHloPatterns S patterns converter = patterns @ added
     \<and> map rootKind added = GET_OP_LIST S
     \<and> (\<forall>p \<in> set added. getTypeConverter p = converter)
     \<and> (\<forall>K. length (filter (\<lambda>p. rootKind p = K) added) = count_list (GET_OP_LIST S) K)
     \<and> (distinct (GET_OP_LIST S) \<longrightarrow>
          (\<forall>K \<in> set (GET_OP_LIST S). length (filter (\<lambda>p. rootKind p = K) added) = 1))"
proof -
  let ?added = "map (\<lambda>T. StablehloToHloOpConverter T converter) (GET_OP_LIST S)"
  have 1: "populateStablehloToHloPatterns S patterns converter = patterns @ ?added"
    by (simp add: populateStablehloToHloPatterns_def populateStablehloToHloPatterns_pack_def)
  have 2: "map rootKind ?added = GET_OP_LIST S"
    by (simp add: comp_def)
  have 3: "\<forall>p \<in> set ?added. getTypeConverter p = converter"
    by auto
  have 4: "\<forall>K. length (filter (\<lambda>p. rootKind p = K) ?added) = count_list (GET_OP_LIST S) K"
    by (rule allI) (rule count_rootKind)
  have 5: "distinct (GET_OP_LIST S) \<longrightarrow>
      (\<forall>K \<in> set (GET_OP_LIST S). length (filter (\<lambda>p. rootKind p = K) ?added) = 1)"
    by (intro impI ballI) (simp only: count_rootKind distinct_count_list)
  from 1 2 3 4 5 show ?thesis by (intro exI conjI)
qed

theorem populate_one_rule_per_kind_witness:
  "distinct (GET_OP_LIST example_Schema)
   \<and> populateStablehloToHloPatterns example_Schema [] example_convertTypes =
       [StablehloToHloOpConverter stablehlo_CaseOp example_convertTypes,
        StablehloToHloOpConverter (stablehlo_Op ''compare'') example_convertTypes,
        StablehloToHloOpConverter (stablehlo_Op ''while'') example_convertTypes]
   \<and> (\<exists>added. populateStablehloToHloPatterns example_Schema [] example_convertTypes = added
        \<and> map rootKind added = GET_OP_LIST example_Schema
        \<and> length (filter (\<lambda>p. rootKind p = stablehlo_CaseOp) added) = 1)"
proof -
  have d: "distinct (GET_OP_LIST example_Schema)"
    by (simp add: example_Schema_def)
  have m: "stablehlo_CaseOp \<in> set (GET_OP_LIST example_Schema)"
    by (simp add: example_Schema_def)
  have e: "populateStablehloToHloPatterns example_Schema [] example_convertTypes =
       [StablehloToHloOpConverter stablehlo_CaseOp example_convertTypes,
        StablehloToHloOpConverter (stablehlo_Op ''compare'') example_convertTypes,
        StablehloToHloOpConverter (stablehlo_Op ''while'') example_convertTypes]"
    by (simp add: populateStablehloToHloPatterns_def populateStablehloToHloPatterns_pack_def
        example_Schema_def)
  from populate_one_rule_per_kind [of example_Schema "[]" example_convertTypes] d m
  have "\<exists>added. populateStablehloToHloPatterns example_Schema [] example_convertTypes = added
        \<and> map rootKind added = GET_OP_LIST example_Schema
        \<and> length (filter (\<lambda>p. rootKind p = stablehlo_CaseOp) added) = 1"
    by auto
  with d e show ?thesis by (intro conjI)
qed

end
